theory Spec2Isabelle
  imports Complex_Main
begin

section \<open>Hotel reservation pricing and ledger (trabalhooficial.py)\<close>

text \<open>
  A shallow embedding of \<^verbatim>\<open>src/trabalhooficial.py\<close>.

  Numbers. The source computes amounts with Python \<^verbatim>\<open>float\<close>; the specification
  calls them decimals. Here an amount is a \<^typ>\<open>real\<close>, so the arithmetic is exact:
  the rounding and the finite range of binary64 are not part of the model. The number
  of days is a Python \<^verbatim>\<open>int\<close>, here an \<^typ>\<open>int\<close>, converted with \<open>of_int\<close> where
  the source multiplies it with a float.

  Objects. Room units are mutable objects shared by reference between the management
  system's list and the reservations, so they live in a store indexed by references.
  Room types are never mutated after construction and are modelled as values.

  Output. What the source prints is returned as a value; the formatting of the
  messages is left out.
\<close>

subsection \<open>Exceptions\<close>

text \<open>
  The two exception classes of the source, and \<open>Exception\<close> for any other exception
  that the handler \<^verbatim>\<open>except Exception\<close> of \<^verbatim>\<open>registrar_reserva\<close> would catch. The message
  strings are omitted.
\<close>

datatype excecao = QuartoNaoAssociadoError | DiasInvalidosError | Exception

subsection \<open>Room types: \<^verbatim>\<open>TipoDeQuarto\<close>, \<^verbatim>\<open>QuartoStandard\<close>, \<^verbatim>\<open>SuiteMaster\<close>\<close>

datatype TipoDeQuarto =
    QuartoStandard (tarifa_diaria_base: real) (taxa_servico_base: real)
      (taxa_limpeza_adicional: real)
  | SuiteMaster (tarifa_diaria_base: real) (taxa_servico_base: real)
      (desconto_fidelidade: real)

fun nome :: "TipoDeQuarto \<Rightarrow> string" where
  "nome (QuartoStandard tarifa taxa limpeza) = ''Standard''"
| "nome (SuiteMaster tarifa taxa desconto) = ''Luxo''"

fun calcular_valor_reserva :: "TipoDeQuarto \<Rightarrow> int \<Rightarrow> real \<Rightarrow> real \<Rightarrow> real" where
  "calcular_valor_reserva (QuartoStandard tarifa taxa limpeza) dias consumo_minibar taxa_ocupacao =
     (let valor_base = (tarifa * of_int dias) * taxa_ocupacao;
          valor_com_minibar = valor_base + consumo_minibar;
          valor_com_taxa = valor_com_minibar * (1 + taxa)
      in if dias > 5 then valor_com_taxa + limpeza else valor_com_taxa)"
| "calcular_valor_reserva (SuiteMaster tarifa taxa desconto) dias consumo_minibar taxa_ocupacao =
     (let valor_base = (tarifa * of_int dias) * taxa_ocupacao;
          acrescimo_20 = valor_base * 0.20;
          valor_com_acrescimo = valor_base + acrescimo_20;
          valor_com_minibar = valor_com_acrescimo + consumo_minibar;
          valor_com_taxa = valor_com_minibar * (1 + taxa)
      in if dias > 3 then valor_com_taxa - desconto else valor_com_taxa)"

subsection \<open>Room units: \<^verbatim>\<open>UnidadeHospedagem\<close>\<close>

type_synonym ref = nat

record UnidadeHospedagem =
  numero_quarto :: int
  localizacao :: string
  tipo_quarto_associado :: "TipoDeQuarto option"

definition UnidadeHospedagem_init :: "int \<Rightarrow> string \<Rightarrow> UnidadeHospedagem" where
  "UnidadeHospedagem_init numero local =
     \<lparr>numero_quarto = numero, localizacao = local, tipo_quarto_associado = None\<rparr>"

definition iniciar_reserva ::
  "UnidadeHospedagem \<Rightarrow> int \<Rightarrow> real \<Rightarrow> real \<Rightarrow> excecao + real" where
  "iniciar_reserva self dias consumo_minibar taxa_ocupacao =
     (case tipo_quarto_associado self of
        None \<Rightarrow> Inl QuartoNaoAssociadoError
      | Some tipo \<Rightarrow>
          if dias \<le> 0 then Inl DiasInvalidosError
          else Inr (calcular_valor_reserva tipo dias consumo_minibar taxa_ocupacao))"

subsection \<open>Reservations and the management system\<close>

record Reserva =
  unidade_reservada :: ref
  reserva_dias :: int
  reserva_consumo_minibar :: real
  reserva_taxa_ocupacao :: real
  valor_total_reserva :: real

record SistemaDeGerenciamentoDeHospedagem =
  quartos :: "ref list"
  historico_reservas :: "Reserva list"

definition SistemaDeGerenciamentoDeHospedagem_init :: SistemaDeGerenciamentoDeHospedagem where
  "SistemaDeGerenciamentoDeHospedagem_init = \<lparr>quartos = [], historico_reservas = []\<rparr>"

text \<open>
  The program state: the store of the room units, and the management system. Every
  reference denotes a unit, so there is no dangling reference.
\<close>

record estado =
  unidades :: "ref \<Rightarrow> UnidadeHospedagem"
  sistema :: SistemaDeGerenciamentoDeHospedagem

definition associar_tipo_quarto :: "ref \<Rightarrow> TipoDeQuarto \<Rightarrow> estado \<Rightarrow> estado" where
  "associar_tipo_quarto u tipo w =
     w\<lparr>unidades := (unidades w)(u := (unidades w u)\<lparr>tipo_quarto_associado := Some tipo\<rparr>)\<rparr>"

definition adicionar_quarto :: "ref \<Rightarrow> estado \<Rightarrow> estado" where
  "adicionar_quarto quarto w =
     w\<lparr>sistema := (sistema w)\<lparr>quartos := quartos (sistema w) @ [quarto]\<rparr>\<rparr>"

text \<open>\<^verbatim>\<open>Reserva.registrar_reserva\<close>: the reservation appends itself to the history.\<close>

definition Reserva_registrar_reserva ::
  "Reserva \<Rightarrow> SistemaDeGerenciamentoDeHospedagem \<Rightarrow> SistemaDeGerenciamentoDeHospedagem" where
  "Reserva_registrar_reserva self sistema_gerenciamento =
     sistema_gerenciamento\<lparr>historico_reservas :=
       historico_reservas sistema_gerenciamento @ [self]\<rparr>"

text \<open>
  The lookup of line 157: \<^verbatim>\<open>next((q for q in self._quartos if q.numero_quarto == numero_quarto), None)\<close>.
\<close>

definition quarto_selecionado :: "int \<Rightarrow> estado \<Rightarrow> ref option" where
  "quarto_selecionado numero w =
     find (\<lambda>q. numero_quarto (unidades w q) = numero) (quartos (sistema w))"

text \<open>
  What a call of \<^verbatim>\<open>registrar_reserva\<close> reports, one constructor for each message.
  The body of the \<^verbatim>\<open>try\<close> calls \<^verbatim>\<open>iniciar_reserva\<close>, builds the reservation, appends it
  to the history and prints it (\<^verbatim>\<open>exibir_resumo\<close> only prints and is left out); the two
  \<^verbatim>\<open>except\<close> clauses are the two branches on the exception.
\<close>

datatype resultado =
    QuartoNaoEncontrado int
  | Sucesso Reserva
  | FalhaAoRegistrar excecao
  | ErroInesperado excecao

definition registrar_reserva ::
  "int \<Rightarrow> int \<Rightarrow> real \<Rightarrow> real \<Rightarrow> estado \<Rightarrow> resultado \<times> estado" where
  "registrar_reserva numero dias consumo_minibar taxa_ocupacao w =
     (case quarto_selecionado numero w of
        None \<Rightarrow> (QuartoNaoEncontrado numero, w)
      | Some q \<Rightarrow>
          (case iniciar_reserva (unidades w q) dias consumo_minibar taxa_ocupacao of
             Inr valor_total \<Rightarrow>
               (let nova_reserva =
                      \<lparr>unidade_reservada = q, reserva_dias = dias,
                       reserva_consumo_minibar = consumo_minibar,
                       reserva_taxa_ocupacao = taxa_ocupacao,
                       valor_total_reserva = valor_total\<rparr>
                in (Sucesso nova_reserva,
                    w\<lparr>sistema := Reserva_registrar_reserva nova_reserva (sistema w)\<rparr>))
           | Inl e \<Rightarrow>
               if e = QuartoNaoAssociadoError \<or> e = DiasInvalidosError
               then (FalhaAoRegistrar e, w)
               else (ErroInesperado e, w)))"

text \<open>
  \<^verbatim>\<open>resumo_faturamento_mensal\<close> prints the number of reservations and the total billed.
  Python's \<^verbatim>\<open>sum\<close> starts at 0 and adds from left to right. The state is returned as
  the method leaves it.
\<close>

definition resumo_faturamento_mensal :: "estado \<Rightarrow> (nat \<times> real) \<times> estado" where
  "resumo_faturamento_mensal w =
     (let total_faturado =
            foldl (\<lambda>acc reserva. acc + valor_total_reserva reserva) 0
              (historico_reservas (sistema w))
      in ((length (historico_reservas (sistema w)), total_faturado), w))"

subsection \<open>Sequences of calls\<close>

text \<open>
  A driver such as \<^verbatim>\<open>demonstracao\<close> issues a sequence of calls on one state. The
  results of the booking calls are collected in order.
\<close>

datatype chamada =
    AdicionarQuarto ref
  | AssociarTipoQuarto ref TipoDeQuarto
  | RegistrarReserva int int real real

fun executar :: "chamada list \<Rightarrow> estado \<Rightarrow> resultado list \<times> estado" where
  "executar [] w = ([], w)"
| "executar (AdicionarQuarto q # cs) w = executar cs (adicionar_quarto q w)"
| "executar (AssociarTipoQuarto u tipo # cs) w = executar cs (associar_tipo_quarto u tipo w)"
| "executar (RegistrarReserva numero dias consumo_minibar taxa_ocupacao # cs) w =
     (let (r, w') = registrar_reserva numero dias consumo_minibar taxa_ocupacao w;
          (rs, w'') = executar cs w'
      in (r # rs, w''))"

text \<open>The reservations of the successful bookings among a list of results.\<close>

fun reservas_registradas :: "resultado list \<Rightarrow> Reserva list" where
  "reservas_registradas [] = []"
| "reservas_registradas (Sucesso r # rs) = r # reservas_registradas rs"
| "reservas_registradas (_ # rs) = reservas_registradas rs"

subsection \<open>The demonstration driver\<close>

text \<open>
  The objects and the calls of \<^verbatim>\<open>demonstracao\<close>: two room types, four units (the
  fourth one without a room type), and five booking calls. Units 0 to 3 of the store
  are the objects \<^verbatim>\<open>q101\<close>, \<^verbatim>\<open>q102\<close>, \<^verbatim>\<open>q201\<close> and \<^verbatim>\<open>q301\<close>; the location strings
  are written in ASCII.
\<close>

definition standard_type :: TipoDeQuarto where
  "standard_type = QuartoStandard 150.00 0.10 50.00"

definition master_type :: TipoDeQuarto where
  "master_type = SuiteMaster 300.00 0.15 30.00"

definition demonstracao_inicial :: estado where
  "demonstracao_inicial =
     \<lparr>unidades = (\<lambda>_. UnidadeHospedagem_init 0 [])
        (0 := UnidadeHospedagem_init 101 ''1o andar, vista mar'',
         1 := UnidadeHospedagem_init 102 ''1o andar, vista interna'',
         2 := UnidadeHospedagem_init 201 ''2o andar, vista mar'',
         3 := UnidadeHospedagem_init 301 ''3o andar, cobertura''),
      sistema = SistemaDeGerenciamentoDeHospedagem_init\<rparr>"

definition demonstracao_preparo :: "chamada list" where
  "demonstracao_preparo =
     [AssociarTipoQuarto 0 standard_type, AssociarTipoQuarto 1 standard_type,
      AssociarTipoQuarto 2 master_type,
      AdicionarQuarto 0, AdicionarQuarto 1, AdicionarQuarto 2, AdicionarQuarto 3]"

definition demonstracao_reservas :: "chamada list" where
  "demonstracao_reservas =
     [RegistrarReserva 101 3 20.00 1.0, RegistrarReserva 102 7 0.00 1.0,
      RegistrarReserva 201 4 50.00 1.0,
      RegistrarReserva 301 2 10.00 1.0, RegistrarReserva 101 0 10.00 1.0]"

definition quartos_demonstracao :: estado where
  "quartos_demonstracao = snd (executar demonstracao_preparo demonstracao_inicial)"


section \<open>Auxiliary facts\<close>

lemmas demo_defs = standard_type_def master_type_def demonstracao_inicial_def
  demonstracao_preparo_def demonstracao_reservas_def quartos_demonstracao_def
  UnidadeHospedagem_init_def SistemaDeGerenciamentoDeHospedagem_init_def
  associar_tipo_quarto_def adicionar_quarto_def registrar_reserva_def
  quarto_selecionado_def iniciar_reserva_def Reserva_registrar_reserva_def
  resumo_faturamento_mensal_def Let_def

lemma foldl_valor_total:
  "foldl (\<lambda>acc reserva. acc + valor_total_reserva reserva) a rs
     = a + sum_list (map valor_total_reserva rs)"
  by (induction rs arbitrary: a) simp_all

lemma registrar_reserva_historico:
  "historico_reservas (sistema (snd (registrar_reserva numero dias m oc w)))
     = historico_reservas (sistema w) @ reservas_registradas [fst (registrar_reserva numero dias m oc w)]"
  by (simp add: registrar_reserva_def Reserva_registrar_reserva_def Let_def
           split: option.splits sum.splits)

lemma executar_historico:
  "executar cs w = (rs, w') \<Longrightarrow>
     historico_reservas (sistema w') = historico_reservas (sistema w) @ reservas_registradas rs"
proof (induction cs w arbitrary: rs w' rule: executar.induct)
  case (1 w)
  then show ?case by simp
next
  case (2 q cs w)
  then show ?case by (simp add: adicionar_quarto_def)
next
  case (3 u tipo cs w)
  then show ?case by (simp add: associar_tipo_quarto_def)
next
  case (4 numero dias m oc cs w)
  obtain r w1 where r: "registrar_reserva numero dias m oc w = (r, w1)"
    by (cases "registrar_reserva numero dias m oc w")
  obtain rs1 w2 where e: "executar cs w1 = (rs1, w2)"
    by (cases "executar cs w1")
  from "4.prems" r e have eq: "rs = r # rs1" "w' = w2" by simp_all
  have h1: "historico_reservas (sistema w1) = historico_reservas (sistema w) @ reservas_registradas [r]"
    using registrar_reserva_historico [of numero dias m oc w] r by simp
  have h2: "historico_reservas (sistema w2) = historico_reservas (sistema w1) @ reservas_registradas rs1"
    using "4.IH" [OF r [symmetric] refl e] .
  show ?case using h1 h2 eq by (cases r) simp_all
qed


section \<open>Fare computation\<close>







section \<open>Starting a reservation on a unit\<close>



text \<open>
  C10. In \<^verbatim>\<open>iniciar_reserva\<close> the check of the room type comes before the check of the
  days: a unit without a room type and days <= 0 gives \<open>QuartoNaoAssociadoError\<close>, and
  \<open>DiasInvalidosError\<close> is raised only when a room type is associated.
\<close>

theorem iniciar_reserva_ordem:
  "(tipo_quarto_associado u = None \<and> dias \<le> 0 \<longrightarrow>
      iniciar_reserva u dias m oc = Inl QuartoNaoAssociadoError)
   \<and> (iniciar_reserva u dias m oc = Inl DiasInvalidosError \<longrightarrow>
      tipo_quarto_associado u \<noteq> None \<and> dias \<le> 0)"
  by (auto simp: iniciar_reserva_def split: option.splits if_splits)

theorem iniciar_reserva_ordem_witness:
  "iniciar_reserva (UnidadeHospedagem_init 301 ''cobertura'') 0 10 1 = Inl QuartoNaoAssociadoError
   \<and> iniciar_reserva (UnidadeHospedagem_init 301 ''cobertura'') (-4) 10 1 \<noteq> Inl DiasInvalidosError"
  using iniciar_reserva_ordem [of "UnidadeHospedagem_init 301 ''cobertura''" 0 10 1]
        iniciar_reserva_ordem [of "UnidadeHospedagem_init 301 ''cobertura''" "-4" 10 1]
  by (auto simp add: UnidadeHospedagem_init_def)

section \<open>Booking through the management system\<close>

text \<open>
  C4. A call of \<^verbatim>\<open>registrar_reserva\<close> that fails, because the room number is not
  registered, because the selected unit has no room type, or because days <= 0, is not
  a success and leaves the reservation history as it was. More generally, every call
  that does not report a success leaves the whole state as it was.
\<close>

theorem registrar_reserva_falha_atomica:
  "(quarto_selecionado numero w = None
     \<or> (\<exists>q. quarto_selecionado numero w = Some q \<and> tipo_quarto_associado (unidades w q) = None)
     \<or> dias \<le> 0 \<longrightarrow>
      (\<forall>r. fst (registrar_reserva numero dias m oc w) \<noteq> Sucesso r)
      \<and> historico_reservas (sistema (snd (registrar_reserva numero dias m oc w)))
          = historico_reservas (sistema w))
   \<and> ((\<forall>r. fst (registrar_reserva numero dias m oc w) \<noteq> Sucesso r) \<longrightarrow>
        snd (registrar_reserva numero dias m oc w) = w)"
  by (auto simp: registrar_reserva_def iniciar_reserva_def Let_def
           split: option.splits sum.splits if_splits)

theorem registrar_reserva_falha_atomica_witness:
  "quarto_selecionado 999 quartos_demonstracao = None
   \<and> historico_reservas (sistema (snd (registrar_reserva 999 2 10 1 quartos_demonstracao)))
       = historico_reservas (sistema quartos_demonstracao)
   \<and> quarto_selecionado 301 quartos_demonstracao = Some 3
   \<and> tipo_quarto_associado (unidades quartos_demonstracao 3) = None
   \<and> historico_reservas (sistema (snd (registrar_reserva 301 2 10 1 quartos_demonstracao)))
       = historico_reservas (sistema quartos_demonstracao)
   \<and> historico_reservas (sistema (snd (registrar_reserva 101 0 10 1 quartos_demonstracao)))
       = historico_reservas (sistema quartos_demonstracao)
   \<and> fst (registrar_reserva 101 0 10 1 quartos_demonstracao) = FalhaAoRegistrar DiasInvalidosError
   \<and> snd (registrar_reserva 101 0 10 1 quartos_demonstracao) = quartos_demonstracao"
proof -
  have a: "quarto_selecionado 999 quartos_demonstracao = None" by (simp add: demo_defs)
  have b: "quarto_selecionado 301 quartos_demonstracao = Some 3" by (simp add: demo_defs)
  have c: "tipo_quarto_associado (unidades quartos_demonstracao 3) = None" by (simp add: demo_defs)
  have d: "fst (registrar_reserva 101 0 10 1 quartos_demonstracao) = FalhaAoRegistrar DiasInvalidosError"
    by (simp add: demo_defs)
  show ?thesis
    using a b c d
      registrar_reserva_falha_atomica [where numero = 999 and w = quartos_demonstracao
        and dias = 2 and m = 10 and oc = 1]
      registrar_reserva_falha_atomica [where numero = 301 and w = quartos_demonstracao
        and dias = 2 and m = 10 and oc = 1]
      registrar_reserva_falha_atomica [where numero = 101 and w = quartos_demonstracao
        and dias = 0 and m = 10 and oc = 1]
    by simp
qed





text \<open>
  C9. After a successful booking, associating any room type with any unit (the booked
  one included) leaves the history, and so the stored reservation with its days,
  minibar consumption, occupancy rate and total, as they were: the total is the fare
  of the room type that the unit had when the booking was made. The unit seen through
  the reservation's reference does carry the new room type. The reservation also stays
  in the history through any later sequence of calls.
\<close>

theorem associar_tipo_quarto_preserva_reserva:
  assumes "registrar_reserva numero dias m oc w = (Sucesso r, w')"
  shows "historico_reservas (sistema (associar_tipo_quarto u tipo w'))
           = historico_reservas (sistema w')
     \<and> r \<in> set (historico_reservas (sistema (associar_tipo_quarto u tipo w')))
     \<and> reserva_dias r = dias \<and> reserva_consumo_minibar r = m \<and> reserva_taxa_ocupacao r = oc
     \<and> (\<exists>t. tipo_quarto_associado (unidades w (unidade_reservada r)) = Some t
           \<and> valor_total_reserva r = calcular_valor_reserva t dias m oc)
     \<and> tipo_quarto_associado
         (unidades (associar_tipo_quarto (unidade_reservada r) tipo w') (unidade_reservada r))
           = Some tipo
     \<and> (\<forall>cs rs w''. executar cs w' = (rs, w'') \<longrightarrow>
           r \<in> set (historico_reservas (sistema w'')))"
proof -
  have hist: "historico_reservas (sistema w') = historico_reservas (sistema w) @ [r]"
    using registrar_reserva_historico [of numero dias m oc w] assms by simp
  have campos: "reserva_dias r = dias \<and> reserva_consumo_minibar r = m
      \<and> reserva_taxa_ocupacao r = oc
      \<and> (\<exists>t. tipo_quarto_associado (unidades w (unidade_reservada r)) = Some t
           \<and> valor_total_reserva r = calcular_valor_reserva t dias m oc)"
    using assms
    by (auto simp: registrar_reserva_def iniciar_reserva_def Let_def
           split: option.splits sum.splits if_splits)
  have depois: "r \<in> set (historico_reservas (sistema w''))"
    if "executar cs w' = (rs, w'')" for cs rs w''
    using executar_historico [OF that] hist by simp
  show ?thesis
    using hist campos depois by (simp add: associar_tipo_quarto_def)
qed

theorem associar_tipo_quarto_preserva_reserva_witness:
  "registrar_reserva 201 4 50 1 quartos_demonstracao =
     (Sucesso \<lparr>unidade_reservada = 2, reserva_dias = 4, reserva_consumo_minibar = 50,
         reserva_taxa_ocupacao = 1, valor_total_reserva = 1683.5\<rparr>,
      snd (registrar_reserva 201 4 50 1 quartos_demonstracao))
   \<and> historico_reservas (sistema (associar_tipo_quarto 2 standard_type
        (snd (registrar_reserva 201 4 50 1 quartos_demonstracao))))
      = [\<lparr>unidade_reservada = 2, reserva_dias = 4, reserva_consumo_minibar = 50,
         reserva_taxa_ocupacao = 1, valor_total_reserva = 1683.5\<rparr>]
   \<and> iniciar_reserva (unidades (associar_tipo_quarto 2 standard_type
        (snd (registrar_reserva 201 4 50 1 quartos_demonstracao))) 2) 4 50 1 = Inr 715"
proof -
  have a: "registrar_reserva 201 4 50 1 quartos_demonstracao =
     (Sucesso \<lparr>unidade_reservada = 2, reserva_dias = 4, reserva_consumo_minibar = 50,
         reserva_taxa_ocupacao = 1, valor_total_reserva = 1683.5\<rparr>,
      snd (registrar_reserva 201 4 50 1 quartos_demonstracao))"
    by (simp add: demo_defs)
  have b: "historico_reservas (sistema (snd (registrar_reserva 201 4 50 1 quartos_demonstracao)))
      = [\<lparr>unidade_reservada = 2, reserva_dias = 4, reserva_consumo_minibar = 50,
         reserva_taxa_ocupacao = 1, valor_total_reserva = 1683.5\<rparr>]"
    by (simp add: demo_defs)
  have c: "iniciar_reserva (unidades (associar_tipo_quarto 2 standard_type
        (snd (registrar_reserva 201 4 50 1 quartos_demonstracao))) 2) 4 50 1 = Inr 715"
    by (simp add: demo_defs)
  show ?thesis
    using a b c associar_tipo_quarto_preserva_reserva [OF a, of 2 standard_type]
    by simp
qed

text \<open>
  C6. \<^verbatim>\<open>resumo_faturamento_mensal\<close> reports the length of the history and the sum of
  the totals of its reservations, and leaves the state unchanged, so a second call
  reports the same. For the empty history it reports 0 and 0. After any sequence of
  calls started on an empty history, the count is the number of successful bookings
  and the total is the sum of their totals.
\<close>

theorem resumo_faturamento_mensal_correto:
  "fst (resumo_faturamento_mensal w) =
     (length (historico_reservas (sistema w)),
      sum_list (map valor_total_reserva (historico_reservas (sistema w))))
   \<and> snd (resumo_faturamento_mensal w) = w
   \<and> resumo_faturamento_mensal (snd (resumo_faturamento_mensal w)) = resumo_faturamento_mensal w
   \<and> (historico_reservas (sistema w) = [] \<longrightarrow> fst (resumo_faturamento_mensal w) = (0, 0))
   \<and> (historico_reservas (sistema w) = [] \<and> executar cs w = (rs, w') \<longrightarrow>
        fst (resumo_faturamento_mensal w') =
          (length (reservas_registradas rs),
           sum_list (map valor_total_reserva (reservas_registradas rs))))"
proof -
  have resumo: "fst (resumo_faturamento_mensal v) =
     (length (historico_reservas (sistema v)),
      sum_list (map valor_total_reserva (historico_reservas (sistema v))))" for v
    by (simp add: resumo_faturamento_mensal_def Let_def foldl_valor_total)
  have puro: "snd (resumo_faturamento_mensal w) = w"
    by (simp add: resumo_faturamento_mensal_def Let_def)
  have seq: "historico_reservas (sistema w') = reservas_registradas rs"
    if "historico_reservas (sistema w) = []" "executar cs w = (rs, w')"
    using executar_historico [OF that(2)] that(1) by simp
  show ?thesis
    using resumo [of w] resumo [of w'] puro seq by auto
qed

theorem resumo_faturamento_mensal_correto_witness:
  "historico_reservas (sistema demonstracao_inicial) = []
   \<and> fst (resumo_faturamento_mensal demonstracao_inicial) = (0, 0)
   \<and> length (reservas_registradas
        (fst (executar (demonstracao_preparo @ demonstracao_reservas) demonstracao_inicial))) = 3
   \<and> fst (resumo_faturamento_mensal
        (snd (executar (demonstracao_preparo @ demonstracao_reservas) demonstracao_inicial)))
      = (3, 3405.5)"
proof -
  have a: "historico_reservas (sistema demonstracao_inicial) = []"
    by (simp add: demo_defs)
  have b: "reservas_registradas
        (fst (executar (demonstracao_preparo @ demonstracao_reservas) demonstracao_inicial))
      = [\<lparr>unidade_reservada = 0, reserva_dias = 3, reserva_consumo_minibar = 20,
           reserva_taxa_ocupacao = 1, valor_total_reserva = 517\<rparr>,
         \<lparr>unidade_reservada = 1, reserva_dias = 7, reserva_consumo_minibar = 0,
           reserva_taxa_ocupacao = 1, valor_total_reserva = 1205\<rparr>,
         \<lparr>unidade_reservada = 2, reserva_dias = 4, reserva_consumo_minibar = 50,
           reserva_taxa_ocupacao = 1, valor_total_reserva = 1683.5\<rparr>]"
    by (simp add: demo_defs)
  show ?thesis
    using a b
      resumo_faturamento_mensal_correto [where w = demonstracao_inicial
        and cs = "demonstracao_preparo @ demonstracao_reservas"
        and rs = "fst (executar (demonstracao_preparo @ demonstracao_reservas) demonstracao_inicial)"
        and w' = "snd (executar (demonstracao_preparo @ demonstracao_reservas) demonstracao_inicial)"]
    by simp
qed

end
